theory Spec2Isabelle
  imports Main
begin

section \<open>JavaScript values\<close>

text \<open>
  The inbound payload is the result of \<^verbatim>\<open>JSON.parse\<close> and is typed \<^verbatim>\<open>any\<close>, so the
  handlers see arbitrary JSON values. \<open>JUndefined\<close> is what reading a missing property
  gives; it is different from \<open>JNull\<close>, and \<^verbatim>\<open>!==\<close> tells them apart. Numbers are
  integers here: the handlers only compare \<^verbatim>\<open>op\<close> with \<^verbatim>\<open>===\<close> and copy \<^verbatim>\<open>s\<close> and
  \<^verbatim>\<open>heartbeat_interval\<close>, they do no arithmetic on payload numbers.
\<close>

datatype js_value =
    JUndefined
  | JNull
  | JBool bool
  | JNum int
  | JStr string
  | JArr "js_value list"
  | JObj "(string \<times> js_value) list"

datatype js_error = TypeError

text \<open>The outcome of an \<^verbatim>\<open>async\<close> function: its promise is fulfilled or rejected.\<close>

datatype settle = Fulfilled | Rejected js_error

definition nullish :: "js_value \<Rightarrow> bool" where
  "nullish v = (v = JUndefined \<or> v = JNull)"

text \<open>
  Reading property \<open>k\<close> of a value that is not \<^verbatim>\<open>null\<close> or \<^verbatim>\<open>undefined\<close> (reading
  those throws, which every caller checks with \<open>nullish\<close> first). None of the names
  read by the gateway (\<^verbatim>\<open>op d s t heartbeat_interval session_id\<close>) is a property of a
  boolean, number, string or array, so these give \<^verbatim>\<open>undefined\<close>.
\<close>

fun get_prop :: "js_value \<Rightarrow> string \<Rightarrow> js_value" where
  "get_prop (JObj kvs) k = (case map_of kvs k of None \<Rightarrow> JUndefined | Some v \<Rightarrow> v)"
| "get_prop v k = JUndefined"

text \<open>
  Whether converting a value to a string, as a template literal does, throws a TypeError.
  A parsed object with a property of its own named \<^verbatim>\<open>toString\<close> has a value there that
  cannot be called, and the inherited \<^verbatim>\<open>valueOf\<close> gives back the object, so the conversion
  throws; any other parsed object prints as \<^verbatim>\<open>[object Object]\<close>. An array joins the
  strings of its elements, so it throws when one of them does. Primitive values never
  throw.
\<close>

fun toString_throws :: "js_value \<Rightarrow> bool" where
  "toString_throws (JObj kvs) = (''toString'' \<in> fst ` set kvs)"
| "toString_throws (JArr xs) = (\<exists>x \<in> set xs. toString_throws x)"
| "toString_throws v = False"

section \<open>Opcodes\<close>

datatype OpCode =
    DISPATCH
  | HEARTBEAT
  | IDENTIFY
  | PRESENCE_UPDATE
  | VOICE_STATE_UPDATE
  | RESUME
  | RECONNECT
  | REQUEST_GUILD_MEMBERS
  | INVALID_SESSION
  | HELLO
  | HEARTBEAT_ACK

fun op_code :: "OpCode \<Rightarrow> int" where
  "op_code DISPATCH = 0"
| "op_code HEARTBEAT = 1"
| "op_code IDENTIFY = 2"
| "op_code PRESENCE_UPDATE = 3"
| "op_code VOICE_STATE_UPDATE = 4"
| "op_code RESUME = 6"
| "op_code RECONNECT = 7"
| "op_code REQUEST_GUILD_MEMBERS = 8"
| "op_code INVALID_SESSION = 9"
| "op_code HELLO = 10"
| "op_code HEARTBEAT_ACK = 11"

section \<open>The gateway object and its environment\<close>

text \<open>
  The fields of \<^verbatim>\<open>DiscordGateway\<close>. \<open>ws\<close> and \<open>heartbeatInterval\<close> are references to
  objects of the environment (a socket, a timer), held as their identities. \<open>sequence\<close>
  is declared \<^verbatim>\<open>number | null\<close> but assigned from the untyped payload, so it holds a
  \<open>js_value\<close>; the same for \<open>sessionId\<close>. \<open>reconnectAttempts\<close> starts at 0 and is only
  ever incremented, below the ceiling: a natural number.
\<close>

record gateway =
  ws :: "nat option"
  sequence :: js_value
  heartbeatInterval :: "nat option"
  sessionId :: js_value
  reconnectAttempts :: nat
  token :: string

definition MAX_RECONNECT_ATTEMPTS :: nat where
  "MAX_RECONNECT_ATTEMPTS = 5"

datatype ready_state = CONNECTING | OPEN | CLOSING | CLOSED

text \<open>
  A \<^verbatim>\<open>WebSocket\<close> object: its \<^verbatim>\<open>readyState\<close>, whether the gateway has registered its
  four event handlers on it, and the frames handed to \<^verbatim>\<open>send\<close> so far. A frame is
  recorded as the payload object given to \<^verbatim>\<open>JSON.stringify\<close>.
\<close>

record socket =
  readyState :: ready_state
  listening :: bool
  sent :: "js_value list"

text \<open>What resumes when an awaited delay is over: in both places it is \<^verbatim>\<open>this.connect()\<close>.\<close>

datatype continuation = Resume_connect

datatype log_line =
    Err_connect_failed
  | Info_connected
  | Err_parse_failed
  | Err_websocket
  | Info_closed
  | Info_heartbeat_ack
  | Info_session_invalidated
  | Info_unhandled_op js_value
  | Info_ready
  | Info_dispatch js_value
  | Info_heartbeat_sent
  | Err_max_reconnect
  | Info_reconnect_in nat

text \<open>
  Everything outside the object that the methods act on: the sockets constructed so far
  (a socket's identity is its index), the interval timers that are set and not cleared
  (identity and the period given to \<^verbatim>\<open>setInterval\<close>), the number of timers created, the
  delays being awaited with what resumes after each, the console, the rejected promises
  that nothing handles, and \<^verbatim>\<open>process.platform\<close>.
\<close>

record world =
  sockets :: "socket list"
  timers :: "(nat \<times> js_value) list"
  timer_count :: nat
  pending :: "(nat \<times> continuation) list"
  logs :: "log_line list"
  unhandled :: "js_error list"
  platform :: string

definition console :: "log_line \<Rightarrow> world \<Rightarrow> world" where
  "console l w = w\<lparr>logs := logs w @ [l]\<rparr>"

definition clearInterval :: "nat \<Rightarrow> world \<Rightarrow> world" where
  "clearInterval h w = w\<lparr>timers := filter (\<lambda>(i, p). i \<noteq> h) (timers w)\<rparr>"

definition setInterval :: "js_value \<Rightarrow> world \<Rightarrow> nat \<times> world" where
  "setInterval period w =
     (timer_count w,
      w\<lparr>timers := timers w @ [(timer_count w, period)], timer_count := Suc (timer_count w)\<rparr>)"

definition setTimeout :: "nat \<Rightarrow> continuation \<Rightarrow> world \<Rightarrow> world" where
  "setTimeout ms k w = w\<lparr>pending := pending w @ [(ms, k)]\<rparr>"

definition new_WebSocket :: "world \<Rightarrow> nat \<times> world" where
  "new_WebSocket w =
     (length (sockets w),
      w\<lparr>sockets := sockets w @ [\<lparr>readyState = CONNECTING, listening = False, sent = []\<rparr>]\<rparr>)"

definition is_open :: "nat \<Rightarrow> world \<Rightarrow> bool" where
  "is_open i w = (i < length (sockets w) \<and> readyState (sockets w ! i) = OPEN)"

definition ws_send :: "nat \<Rightarrow> js_value \<Rightarrow> world \<Rightarrow> world" where
  "ws_send i frame w =
     (if i < length (sockets w)
      then w\<lparr>sockets := (sockets w)[i := (sockets w ! i)\<lparr>sent := sent (sockets w ! i) @ [frame]\<rparr>]\<rparr>
      else w)"

text \<open>
  \<^verbatim>\<open>close()\<close> of the transport library starts the closing handshake of a socket that is
  connecting or open, and does nothing on one that is closing or closed.
\<close>

definition ws_close :: "nat \<Rightarrow> world \<Rightarrow> world" where
  "ws_close i w =
     (if i < length (sockets w) \<and> readyState (sockets w ! i) \<in> {CONNECTING, OPEN}
      then w\<lparr>sockets := (sockets w)[i := (sockets w ! i)\<lparr>readyState := CLOSING\<rparr>]\<rparr>
      else w)"

section \<open>The methods of the gateway\<close>

text \<open>
  \<^verbatim>\<open>setupWebSocketHandlers\<close>: returns at once without a socket, otherwise registers the
  four handlers (\<open>on_open\<close>, \<open>on_message\<close>, \<open>on_error\<close>, \<open>on_close\<close> below) on it.
\<close>

definition setupWebSocketHandlers :: "gateway \<Rightarrow> world \<Rightarrow> world" where
  "setupWebSocketHandlers st w =
     (case ws st of
        None \<Rightarrow> w
      | Some i \<Rightarrow>
          if i < length (sockets w)
          then w\<lparr>sockets := (sockets w)[i := (sockets w ! i)\<lparr>listening := True\<rparr>]\<rparr>
          else w)"

text \<open>
  \<^verbatim>\<open>handleReconnect\<close> up to its \<^verbatim>\<open>await setTimeout(delay)\<close>; the rest of the function,
  \<^verbatim>\<open>await this.connect()\<close>, is the continuation left in \<open>pending\<close>.
\<close>

definition handleReconnect :: "gateway \<Rightarrow> world \<Rightarrow> gateway \<times> world" where
  "handleReconnect st w =
     (if reconnectAttempts st \<ge> MAX_RECONNECT_ATTEMPTS
      then (st, console Err_max_reconnect w)
      else
        let st1 = st\<lparr>reconnectAttempts := reconnectAttempts st + 1\<rparr>;
            delay = min (1000 * 2 ^ reconnectAttempts st1) 30000
        in (st1, setTimeout delay Resume_connect (console (Info_reconnect_in delay) w)))"

text \<open>
  \<^verbatim>\<open>connect\<close>. Whether \<^verbatim>\<open>new WebSocket(url)\<close> returns or throws is the environment's:
  \<open>constructed\<close> is True when it returns. When it throws, \<^verbatim>\<open>this.ws\<close> is not assigned.
\<close>

definition connect :: "bool \<Rightarrow> gateway \<Rightarrow> world \<Rightarrow> gateway \<times> world" where
  "connect constructed st w =
     (if constructed
      then
        let (i, w1) = new_WebSocket w;
            st1 = st\<lparr>ws := Some i\<rparr>
        in (st1, setupWebSocketHandlers st1 w1)
      else handleReconnect st (console Err_connect_failed w))"

definition startHeartbeat :: "js_value \<Rightarrow> gateway \<Rightarrow> world \<Rightarrow> gateway \<times> world" where
  "startHeartbeat interval st w =
     (let w1 = (case heartbeatInterval st of None \<Rightarrow> w | Some h \<Rightarrow> clearInterval h w);
          (h', w2) = setInterval interval w1
      in (st\<lparr>heartbeatInterval := Some h'\<rparr>, w2))"

definition heartbeat_payload :: "gateway \<Rightarrow> js_value" where
  "heartbeat_payload st = JObj [(''op'', JNum (op_code HEARTBEAT)), (''d'', sequence st)]"

text \<open>\<^verbatim>\<open>sendHeartbeat\<close>, the body of the interval timer's callback. It assigns no field.\<close>

definition sendHeartbeat :: "gateway \<Rightarrow> world \<Rightarrow> world" where
  "sendHeartbeat st w =
     (case ws st of
        None \<Rightarrow> w
      | Some i \<Rightarrow>
          if \<not> is_open i w then w
          else console Info_heartbeat_sent (ws_send i (heartbeat_payload st) w))"

definition identify_payload :: "gateway \<Rightarrow> world \<Rightarrow> js_value" where
  "identify_payload st w =
     JObj [(''op'', JNum (op_code IDENTIFY)),
           (''d'', JObj [(''token'', JStr (token st)),
                         (''intents'', JNum 513),
                         (''properties'', JObj [(''os'', JStr (platform w)),
                                                (''browser'', JStr ''discord_gateway''),
                                                (''device'', JStr ''discord_gateway'')])])]"

definition identify :: "gateway \<Rightarrow> world \<Rightarrow> world" where
  "identify st w =
     (case ws st of
        None \<Rightarrow> w
      | Some i \<Rightarrow>
          if \<not> is_open i w then w
          else ws_send i (identify_payload st w) w)"

text \<open>
  \<^verbatim>\<open>handleHello\<close>: destructuring \<^verbatim>\<open>null\<close> or \<^verbatim>\<open>undefined\<close> throws a TypeError before
  anything else is done. \<^verbatim>\<open>identify\<close> has no \<^verbatim>\<open>await\<close> inside, so it has run to its end
  when \<^verbatim>\<open>await this.identify()\<close> suspends.
\<close>

definition handleHello :: "js_value \<Rightarrow> gateway \<Rightarrow> world \<Rightarrow> settle \<times> gateway \<times> world" where
  "handleHello data st w =
     (if nullish data then (Rejected TypeError, st, w)
      else
        let heartbeat_interval = get_prop data ''heartbeat_interval'';
            (st1, w1) = startHeartbeat heartbeat_interval st w
        in (Fulfilled, st1, identify st1 w1))"

text \<open>
  \<^verbatim>\<open>handleInvalidSession\<close> up to its \<^verbatim>\<open>await setTimeout(5000)\<close>. The timer is cleared,
  the field \<open>heartbeatInterval\<close> keeps the stale handle.
\<close>

definition handleInvalidSession :: "gateway \<Rightarrow> world \<Rightarrow> gateway \<times> world" where
  "handleInvalidSession st w =
     (let w1 = (case heartbeatInterval st of None \<Rightarrow> w | Some h \<Rightarrow> clearInterval h w)
      in (st, setTimeout 5000 Resume_connect w1))"

text \<open>
  \<^verbatim>\<open>handleDispatch\<close>: reading \<^verbatim>\<open>data.session_id\<close> throws when \<^verbatim>\<open>data\<close> is null or
  undefined, and the log line of any other event converts the event name to a string.
\<close>

definition handleDispatch :: "js_value \<Rightarrow> js_value \<Rightarrow> gateway \<Rightarrow> world \<Rightarrow> settle \<times> gateway \<times> world" where
  "handleDispatch event data st w =
     (if event = JStr ''READY''
      then
        if nullish data then (Rejected TypeError, st, w)
        else (Fulfilled, st\<lparr>sessionId := get_prop data ''session_id''\<rparr>, console Info_ready w)
      else if toString_throws event then (Rejected TypeError, st, w)
      else (Fulfilled, st, console (Info_dispatch event) w))"

text \<open>
  \<^verbatim>\<open>handlePayload\<close>: the sequence number is stored before the opcode is looked at, so
  it stays stored when a branch throws. The log line of the default branch converts
  \<^verbatim>\<open>op\<close> to a string.
\<close>

definition handlePayload :: "js_value \<Rightarrow> gateway \<Rightarrow> world \<Rightarrow> settle \<times> gateway \<times> world" where
  "handlePayload payload st w =
     (if nullish payload then (Rejected TypeError, st, w)
      else
        let op = get_prop payload ''op'';
            d = get_prop payload ''d'';
            s = get_prop payload ''s'';
            t = get_prop payload ''t'';
            st1 = (if s \<noteq> JNull then st\<lparr>sequence := s\<rparr> else st)
        in
          if op = JNum (op_code HELLO) then handleHello d st1 w
          else if op = JNum (op_code HEARTBEAT_ACK) then (Fulfilled, st1, console Info_heartbeat_ack w)
          else if op = JNum (op_code INVALID_SESSION) then
            (let (st2, w2) = handleInvalidSession st1 (console Info_session_invalidated w)
             in (Fulfilled, st2, w2))
          else if op = JNum (op_code DISPATCH) then handleDispatch t d st1 w
          else if toString_throws op then (Rejected TypeError, st1, w)
          else (Fulfilled, st1, console (Info_unhandled_op op) w))"

definition disconnect :: "gateway \<Rightarrow> world \<Rightarrow> gateway \<times> world" where
  "disconnect st w =
     (let w1 = (case heartbeatInterval st of None \<Rightarrow> w | Some h \<Rightarrow> clearInterval h w);
          w2 = (case ws st of None \<Rightarrow> w1 | Some i \<Rightarrow> ws_close i w1)
      in (st, w2))"

subsection \<open>The four socket event handlers\<close>

definition on_open :: "gateway \<Rightarrow> world \<Rightarrow> gateway \<times> world" where
  "on_open st w = (st, console Info_connected w)"

text \<open>
  The message handler. \<open>parsed\<close> is what \<^verbatim>\<open>JSON.parse(data.toString())\<close> gives, None
  when it throws. \<^verbatim>\<open>handlePayload\<close> is \<^verbatim>\<open>async\<close> and is called without \<^verbatim>\<open>await\<close>: the
  call returns a promise and never throws, so the \<^verbatim>\<open>catch\<close> sees parse errors only, and
  a rejection of that promise is handled by nobody.
\<close>

definition on_message :: "js_value option \<Rightarrow> gateway \<Rightarrow> world \<Rightarrow> gateway \<times> world" where
  "on_message parsed st w =
     (case parsed of
        None \<Rightarrow> (st, console Err_parse_failed w)
      | Some payload \<Rightarrow>
          (case handlePayload payload st w of
             (Fulfilled, st', w') \<Rightarrow> (st', w')
           | (Rejected e, st', w') \<Rightarrow> (st', w'\<lparr>unhandled := unhandled w' @ [e]\<rparr>)))"

definition on_error :: "gateway \<Rightarrow> world \<Rightarrow> gateway \<times> world" where
  "on_error st w = (st, console Err_websocket w)"

definition on_close :: "gateway \<Rightarrow> world \<Rightarrow> gateway \<times> world" where
  "on_close st w = handleReconnect st (console Info_closed w)"

section \<open>The event loop\<close>

text \<open>
  One turn of the event loop runs one of: a call by the owner of the object, an event of
  a socket that has the handlers, a tick of an interval timer that is set, the end of an
  awaited delay. A socket is open when its \<^verbatim>\<open>open\<close> event is emitted and closed when its
  \<^verbatim>\<open>close\<close> event is. The transport library puts a socket into the closing state before
  it emits its \<^verbatim>\<open>error\<close> event, and emits the \<^verbatim>\<open>close\<close> event of that socket afterwards:
  in the runs that can occur, a \<open>Sock_error i\<close> is followed, at once or later, by
  \<open>Sock_close i\<close>. An event that cannot occur in the current world changes nothing.
\<close>

datatype event =
    Call_connect bool
  | Call_disconnect
  | Sock_open nat
  | Sock_message nat "js_value option"
  | Sock_error nat
  | Sock_close nat
  | Interval_tick nat
  | Delay_elapsed nat bool

definition set_readyState :: "nat \<Rightarrow> ready_state \<Rightarrow> world \<Rightarrow> world" where
  "set_readyState i r w = w\<lparr>sockets := (sockets w)[i := (sockets w ! i)\<lparr>readyState := r\<rparr>]\<rparr>"

definition emits :: "nat \<Rightarrow> world \<Rightarrow> bool" where
  "emits i w = (i < length (sockets w) \<and> listening (sockets w ! i))"

text \<open>A socket that has the handlers and has not emitted its \<^verbatim>\<open>close\<close> event yet.\<close>

definition alive :: "nat \<Rightarrow> world \<Rightarrow> bool" where
  "alive i w = (emits i w \<and> readyState (sockets w ! i) \<noteq> CLOSED)"

fun run_continuation :: "continuation \<Rightarrow> bool \<Rightarrow> gateway \<Rightarrow> world \<Rightarrow> gateway \<times> world" where
  "run_continuation Resume_connect constructed st w = connect constructed st w"

definition resume :: "nat \<Rightarrow> bool \<Rightarrow> gateway \<Rightarrow> world \<Rightarrow> gateway \<times> world" where
  "resume k constructed st w =
     (if k < length (pending w)
      then run_continuation (snd (pending w ! k)) constructed st
             (w\<lparr>pending := take k (pending w) @ drop (Suc k) (pending w)\<rparr>)
      else (st, w))"

fun step :: "event \<Rightarrow> gateway \<Rightarrow> world \<Rightarrow> gateway \<times> world" where
  "step (Call_connect constructed) st w = connect constructed st w"
| "step Call_disconnect st w = disconnect st w"
| "step (Sock_open i) st w =
     (if emits i w \<and> readyState (sockets w ! i) = CONNECTING
      then on_open st (set_readyState i OPEN w) else (st, w))"
| "step (Sock_message i parsed) st w =
     (if emits i w \<and> readyState (sockets w ! i) \<in> {OPEN, CLOSING}
      then on_message parsed st w else (st, w))"
| "step (Sock_error i) st w =
     (if emits i w \<and> readyState (sockets w ! i) \<noteq> CLOSED
      then on_error st (set_readyState i CLOSING w) else (st, w))"
| "step (Sock_close i) st w =
     (if emits i w \<and> readyState (sockets w ! i) \<noteq> CLOSED
      then on_close st (set_readyState i CLOSED w) else (st, w))"
| "step (Interval_tick h) st w =
     (if h \<in> fst ` set (timers w) then (st, sendHeartbeat st w) else (st, w))"
| "step (Delay_elapsed k constructed) st w = resume k constructed st w"

fun run :: "event list \<Rightarrow> gateway \<Rightarrow> world \<Rightarrow> gateway \<times> world" where
  "run [] st w = (st, w)"
| "run (e # es) st w = (case step e st w of (st', w') \<Rightarrow> run es st' w')"

text \<open>The object as the constructor leaves it, in a world where nothing has happened.\<close>

definition new_gateway :: "string \<Rightarrow> gateway" where
  "new_gateway tok =
     \<lparr>ws = None, sequence = JNull, heartbeatInterval = None, sessionId = JNull,
      reconnectAttempts = 0, token = tok\<rparr>"

definition new_world :: "string \<Rightarrow> world" where
  "new_world plat =
     \<lparr>sockets = [], timers = [], timer_count = 0, pending = [], logs = [], unhandled = [],
      platform = plat\<rparr>"

text \<open>
  What holds of every state the event loop reaches: at most one interval timer is set,
  it is the one whose handle the object holds, and the socket the object holds exists.
\<close>

definition gateway_inv :: "gateway \<Rightarrow> world \<Rightarrow> bool" where
  "gateway_inv st w =
     (length (timers w) \<le> 1
      \<and> (\<forall>(i, p) \<in> set (timers w). heartbeatInterval st = Some i)
      \<and> (\<forall>i \<in> set_option (ws st). i < length (sockets w)))"

section \<open>Sample frames\<close>

text \<open>A HELLO frame as the server sends it, with \<^verbatim>\<open>heartbeat_interval\<close> \<open>n\<close>.\<close>

definition hello_frame :: "int \<Rightarrow> js_value" where
  "hello_frame n =
     JObj [(''op'', JNum 10), (''d'', JObj [(''heartbeat_interval'', JNum n)]),
           (''s'', JNull), (''t'', JNull)]"

section \<open>Field projections of the environment's operations\<close>

lemma clearInterval_simps [simp]:
  "timers (clearInterval h w) = filter (\<lambda>(i, p). i \<noteq> h) (timers w)"
  "sockets (clearInterval h w) = sockets w"
  "pending (clearInterval h w) = pending w"
  "logs (clearInterval h w) = logs w"
  "unhandled (clearInterval h w) = unhandled w"
  "timer_count (clearInterval h w) = timer_count w"
  "platform (clearInterval h w) = platform w"
  by (simp_all add: clearInterval_def)

lemma console_simps [simp]:
  "timers (console l w) = timers w"
  "sockets (console l w) = sockets w"
  "pending (console l w) = pending w"
  "logs (console l w) = logs w @ [l]"
  "unhandled (console l w) = unhandled w"
  "timer_count (console l w) = timer_count w"
  "platform (console l w) = platform w"
  by (simp_all add: console_def)

lemma setTimeout_simps [simp]:
  "timers (setTimeout ms k w) = timers w"
  "sockets (setTimeout ms k w) = sockets w"
  "pending (setTimeout ms k w) = pending w @ [(ms, k)]"
  "logs (setTimeout ms k w) = logs w"
  "unhandled (setTimeout ms k w) = unhandled w"
  "timer_count (setTimeout ms k w) = timer_count w"
  "platform (setTimeout ms k w) = platform w"
  by (simp_all add: setTimeout_def)

lemma ws_send_simps [simp]:
  "timers (ws_send i f w) = timers w"
  "length (sockets (ws_send i f w)) = length (sockets w)"
  "pending (ws_send i f w) = pending w"
  "logs (ws_send i f w) = logs w"
  "unhandled (ws_send i f w) = unhandled w"
  "timer_count (ws_send i f w) = timer_count w"
  "platform (ws_send i f w) = platform w"
  by (simp_all add: ws_send_def)

lemma ws_close_simps [simp]:
  "timers (ws_close i w) = timers w"
  "length (sockets (ws_close i w)) = length (sockets w)"
  "pending (ws_close i w) = pending w"
  "logs (ws_close i w) = logs w"
  "unhandled (ws_close i w) = unhandled w"
  "timer_count (ws_close i w) = timer_count w"
  "platform (ws_close i w) = platform w"
  by (simp_all add: ws_close_def)

lemma set_readyState_simps [simp]:
  "timers (set_readyState i r w) = timers w"
  "length (sockets (set_readyState i r w)) = length (sockets w)"
  "pending (set_readyState i r w) = pending w"
  "unhandled (set_readyState i r w) = unhandled w"
  by (simp_all add: set_readyState_def)

section \<open>The invariant of the event loop\<close>

text \<open>
  Under the invariant, the guarded \<^verbatim>\<open>clearInterval(this.heartbeatInterval)\<close> that opens
  \<^verbatim>\<open>startHeartbeat\<close>, \<^verbatim>\<open>handleInvalidSession\<close> and \<^verbatim>\<open>disconnect\<close> leaves no timer set.
\<close>

lemma cleared_world:
  assumes "gateway_inv st w"
  shows "(case heartbeatInterval st of None \<Rightarrow> w | Some h \<Rightarrow> clearInterval h w) = w\<lparr>timers := []\<rparr>"
proof (cases "heartbeatInterval st")
  case None
  with assms have "timers w = []"
    by (cases "timers w") (auto simp: gateway_inv_def)
  with None show ?thesis by simp
next
  case (Some h)
  with assms have "\<forall>x \<in> set (timers w). fst x = h"
    by (auto simp: gateway_inv_def)
  then have "filter (\<lambda>(i, p). i \<noteq> h) (timers w) = []"
    by (auto simp: filter_empty_conv)
  with Some show ?thesis by (simp add: clearInterval_def)
qed

lemma inv_handleReconnect:
  "gateway_inv st w \<Longrightarrow> handleReconnect st w = (st', w') \<Longrightarrow> gateway_inv st' w'"
  by (auto simp: handleReconnect_def gateway_inv_def Let_def split: if_splits)

lemma inv_console: "gateway_inv st w \<Longrightarrow> gateway_inv st (console l w)"
  by (simp add: gateway_inv_def)

lemma inv_connect:
  "gateway_inv st w \<Longrightarrow> connect c st w = (st', w') \<Longrightarrow> gateway_inv st' w'"
  by (cases c)
     (auto simp: connect_def new_WebSocket_def setupWebSocketHandlers_def gateway_inv_def
        handleReconnect_def Let_def split: if_splits)

lemma inv_startHeartbeat:
  assumes "gateway_inv st w" and "startHeartbeat n st w = (st', w')"
  shows "gateway_inv st' w' \<and> timers w' = [(timer_count w, n)]
         \<and> heartbeatInterval st' = Some (timer_count w) \<and> sockets w' = sockets w
         \<and> ws st' = ws st"
proof -
  from assms(2) have t: "timers w' = [(timer_count w, n)]"
    and h: "heartbeatInterval st' = Some (timer_count w)"
    and s: "sockets w' = sockets w" and c: "ws st' = ws st"
    by (auto simp: startHeartbeat_def setInterval_def Let_def cleared_world [OF assms(1)])
  with assms(1) show ?thesis by (simp add: gateway_inv_def)
qed

lemma inv_identify: "gateway_inv st w \<Longrightarrow> gateway_inv st (identify st w)"
  by (auto simp: gateway_inv_def identify_def split: option.splits)

lemma inv_sendHeartbeat: "gateway_inv st w \<Longrightarrow> gateway_inv st (sendHeartbeat st w)"
  by (auto simp: gateway_inv_def sendHeartbeat_def split: option.splits)

lemma inv_handleInvalidSession:
  assumes "gateway_inv st w" and "handleInvalidSession st w = (st', w')"
  shows "gateway_inv st' w'"
  using assms
  by (auto simp: handleInvalidSession_def cleared_world [OF assms(1)] gateway_inv_def)

lemma inv_disconnect:
  assumes "gateway_inv st w" and "disconnect st w = (st', w')"
  shows "gateway_inv st' w'"
  using assms
  by (cases "ws st") (auto simp: disconnect_def Let_def cleared_world [OF assms(1)] gateway_inv_def)

lemma inv_sequence: "gateway_inv (st\<lparr>sequence := s\<rparr>) w = gateway_inv st w"
  by (simp add: gateway_inv_def)

lemma inv_handleHello:
  assumes "gateway_inv st w" and "handleHello d st w = (r, st', w')"
  shows "gateway_inv st' w'"
proof (cases "nullish d")
  case True
  with assms show ?thesis by (simp add: handleHello_def)
next
  case False
  obtain st1 w1 where sh: "startHeartbeat (get_prop d ''heartbeat_interval'') st w = (st1, w1)"
    by (cases "startHeartbeat (get_prop d ''heartbeat_interval'') st w")
  with False assms(2) have "st' = st1" and "w' = identify st1 w1"
    by (auto simp: handleHello_def)
  with inv_startHeartbeat [OF assms(1) sh] show ?thesis
    by (simp add: inv_identify)
qed

lemma inv_handleDispatch:
  "gateway_inv st w \<Longrightarrow> handleDispatch t d st w = (r, st', w') \<Longrightarrow> gateway_inv st' w'"
  by (auto simp: gateway_inv_def handleDispatch_def split: if_splits)


lemma inv_handlePayload:
  assumes "gateway_inv st w" and "handlePayload p st w = (r, st', w')"
  shows "gateway_inv st' w'"
proof (cases "nullish p")
  case True
  with assms show ?thesis by (simp add: handlePayload_def)
next
  case False
  define st1 where "st1 = (if get_prop p ''s'' \<noteq> JNull then st\<lparr>sequence := get_prop p ''s''\<rparr> else st)"
  define op where "op = get_prop p ''op''"
  have i1: "gateway_inv st1 w"
    using assms(1) by (simp add: st1_def inv_sequence)
  have hp: "handlePayload p st w =
      (if op = JNum 10 then handleHello (get_prop p ''d'') st1 w
       else if op = JNum 11 then (Fulfilled, st1, console Info_heartbeat_ack w)
       else if op = JNum 9 then
         (case handleInvalidSession st1 (console Info_session_invalidated w) of
            (st2, w2) \<Rightarrow> (Fulfilled, st2, w2))
       else if op = JNum 0 then handleDispatch (get_prop p ''t'') (get_prop p ''d'') st1 w
       else if toString_throws op then (Rejected TypeError, st1, w)
       else (Fulfilled, st1, console (Info_unhandled_op op) w))"
    using False by (simp add: handlePayload_def Let_def st1_def op_def)
  consider (hello) "op = JNum 10" | (ack) "op = JNum 11" | (invalid) "op = JNum 9"
    | (dispatch) "op = JNum 0" | (other) "op \<noteq> JNum 10" "op \<noteq> JNum 11" "op \<noteq> JNum 9" "op \<noteq> JNum 0"
    by blast
  then show ?thesis
  proof cases
    case hello
    with hp assms(2) have "handleHello (get_prop p ''d'') st1 w = (r, st', w')" by simp
    with i1 show ?thesis by (rule inv_handleHello)
  next
    case ack
    with hp assms(2) have "st' = st1" and "w' = console Info_heartbeat_ack w" by simp_all
    with i1 show ?thesis by (simp add: inv_console)
  next
    case invalid
    obtain st2 w2 where h: "handleInvalidSession st1 (console Info_session_invalidated w) = (st2, w2)"
      by (cases "handleInvalidSession st1 (console Info_session_invalidated w)")
    with invalid hp assms(2) have "st' = st2" and "w' = w2" by simp_all
    with inv_handleInvalidSession [OF inv_console [OF i1] h] show ?thesis by simp
  next
    case dispatch
    with hp assms(2) have "handleDispatch (get_prop p ''t'') (get_prop p ''d'') st1 w = (r, st', w')"
      by simp
    with i1 show ?thesis by (rule inv_handleDispatch)
  next
    case other
    with hp assms(2) have "st' = st1" and "w' = w \<or> w' = console (Info_unhandled_op op) w"
      by (auto split: if_splits)
    with i1 show ?thesis by (auto simp: inv_console)
  qed
qed

lemma inv_unhandled: "gateway_inv st (w\<lparr>unhandled := u\<rparr>) = gateway_inv st w"
  by (simp add: gateway_inv_def)

lemma inv_on_message:
  assumes "gateway_inv st w" and "on_message parsed st w = (st', w')"
  shows "gateway_inv st' w'"
proof (cases parsed)
  case None
  with assms show ?thesis by (auto simp: on_message_def inv_console)
next
  case (Some p)
  obtain r st1 w1 where h: "handlePayload p st w = (r, st1, w1)"
    by (cases "handlePayload p st w")
  from inv_handlePayload [OF assms(1) h] have "gateway_inv st1 w1" .
  with Some h assms(2) show ?thesis
    by (cases r) (auto simp: on_message_def inv_unhandled)
qed

lemma inv_set_readyState: "gateway_inv st w \<Longrightarrow> gateway_inv st (set_readyState i r w)"
  by (auto simp: gateway_inv_def split: option.splits)

lemma inv_resume:
  assumes "gateway_inv st w" and "resume k c st w = (st', w')"
  shows "gateway_inv st' w'"
proof (cases "k < length (pending w)")
  case True
  have "gateway_inv st (w\<lparr>pending := take k (pending w) @ drop (Suc k) (pending w)\<rparr>)"
    using assms(1) by (simp add: gateway_inv_def)
  with True assms(2) show ?thesis
    by (cases "snd (pending w ! k)") (auto simp: resume_def dest: inv_connect)
next
  case False
  with assms show ?thesis by (simp add: resume_def)
qed

lemma inv_step:
  assumes "gateway_inv st w" and "step e st w = (st', w')"
  shows "gateway_inv st' w'"
proof (cases e)
  case (Call_connect c)
  with assms show ?thesis by (auto dest: inv_connect)
next
  case Call_disconnect
  with assms show ?thesis by (auto dest: inv_disconnect)
next
  case (Sock_open i)
  with assms show ?thesis
    by (auto simp: on_open_def inv_console inv_set_readyState split: if_splits)
next
  case (Sock_message i parsed)
  with assms show ?thesis by (auto dest: inv_on_message split: if_splits)
next
  case (Sock_error i)
  with assms show ?thesis
    by (auto simp: on_error_def inv_console inv_set_readyState split: if_splits)
next
  case (Sock_close i)
  with assms show ?thesis
    by (auto simp: on_close_def split: if_splits
        intro: inv_handleReconnect [OF inv_console [OF inv_set_readyState]])
next
  case (Interval_tick h)
  with assms show ?thesis by (auto simp: inv_sendHeartbeat split: if_splits)
next
  case (Delay_elapsed k c)
  with assms show ?thesis by (auto dest: inv_resume)
qed

lemma inv_run:
  "gateway_inv st w \<Longrightarrow> run es st w = (st', w') \<Longrightarrow> gateway_inv st' w'"
proof (induction es arbitrary: st w)
  case Nil
  then show ?case by simp
next
  case (Cons e es)
  obtain st1 w1 where s: "step e st w = (st1, w1)" by (cases "step e st w")
  with Cons.prems(2) have "run es st1 w1 = (st', w')" by simp
  with Cons.IH inv_step [OF Cons.prems(1) s] show ?case by blast
qed

lemma inv_new: "gateway_inv (new_gateway tok) (new_world plat)"
  by (simp add: gateway_inv_def new_gateway_def new_world_def)

text \<open>Every state the event loop reaches from a fresh object satisfies the invariant.\<close>

lemma inv_reachable:
  "gateway_inv (fst (run es (new_gateway tok) (new_world plat)))
     (snd (run es (new_gateway tok) (new_world plat)))"
  using inv_run [OF inv_new, of es tok plat] by (simp add: prod_eq_iff)

section \<open>The sequence number\<close>

lemma sequence_handleHello: "sequence (fst (snd (handleHello d st w))) = sequence st"
  by (simp add: handleHello_def startHeartbeat_def setInterval_def Let_def split: prod.splits)

lemma sequence_handleDispatch: "sequence (fst (snd (handleDispatch t d st w))) = sequence st"
  by (simp add: handleDispatch_def)

lemma sequence_handleInvalidSession: "sequence (fst (handleInvalidSession st w)) = sequence st"
  by (simp add: handleInvalidSession_def)

lemma handlePayload_sequence:
  "sequence (fst (snd (handlePayload p st w))) =
     (if nullish p \<or> get_prop p ''s'' = JNull then sequence st else get_prop p ''s'')"
  by (simp add: handlePayload_def Let_def sequence_handleHello sequence_handleDispatch
      handleInvalidSession_def split: prod.splits)

text \<open>
  Claim C1. A frame whose \<^verbatim>\<open>s\<close> is not null stores that \<^verbatim>\<open>s\<close>, whatever the opcode
  (lemma \<open>handlePayload_sequence\<close>), and a frame whose \<^verbatim>\<open>s\<close> is null keeps the stored
  value. The claim also says that a stored sequence number is never reset to null or
  absent by frame handling. The guard is \<^verbatim>\<open>s !== null\<close>, and a frame that has no \<^verbatim>\<open>s\<close>
  property at all gives \<^verbatim>\<open>undefined\<close>, which passes the guard: after a dispatch frame
  with \<^verbatim>\<open>s = 3\<close>, the frame \<^verbatim>\<open>{"op": 11}\<close> overwrites the stored 3 with
  \<^verbatim>\<open>undefined\<close>, a value outside the declared type \<^verbatim>\<open>number | null\<close> of the field.
\<close>

theorem absent_s_overwrites_sequence:
  "sequence (fst (run [Call_connect True, Sock_open 0,
       Sock_message 0 (Some (JObj [(''op'', JNum 0), (''t'', JStr ''MESSAGE_CREATE''), (''s'', JNum 3), (''d'', JObj [])]))]
       (new_gateway ''t'') (new_world ''linux''))) = JNum 3
   \<and> sequence (fst (run [Call_connect True, Sock_open 0,
       Sock_message 0 (Some (JObj [(''op'', JNum 0), (''t'', JStr ''MESSAGE_CREATE''), (''s'', JNum 3), (''d'', JObj [])])),
       Sock_message 0 (Some (JObj [(''op'', JNum 11)]))]
       (new_gateway ''t'') (new_world ''linux''))) = JUndefined"
  by (simp add: new_gateway_def new_world_def connect_def new_WebSocket_def
      setupWebSocketHandlers_def emits_def on_open_def set_readyState_def console_def
      on_message_def handlePayload_def handleDispatch_def nullish_def Let_def)

section \<open>The reconnect counter\<close>

lemma attempts_handleReconnect: "reconnectAttempts st \<le> reconnectAttempts (fst (handleReconnect st w))"
  by (simp add: handleReconnect_def Let_def)

lemma attempts_connect: "reconnectAttempts st \<le> reconnectAttempts (fst (connect c st w))"
  by (cases c) (simp_all add: connect_def new_WebSocket_def Let_def attempts_handleReconnect)

lemma attempts_handleHello: "reconnectAttempts (fst (snd (handleHello d st w))) = reconnectAttempts st"
  by (simp add: handleHello_def startHeartbeat_def setInterval_def Let_def split: prod.splits)

lemma attempts_handlePayload: "reconnectAttempts (fst (snd (handlePayload p st w))) = reconnectAttempts st"
  by (simp add: handlePayload_def Let_def attempts_handleHello handleDispatch_def
      handleInvalidSession_def split: prod.splits)

lemma attempts_on_message: "reconnectAttempts (fst (on_message parsed st w)) = reconnectAttempts st"
proof (cases parsed)
  case None
  then show ?thesis by (simp add: on_message_def)
next
  case (Some p)
  obtain r st1 w1 where h: "handlePayload p st w = (r, st1, w1)"
    by (cases "handlePayload p st w")
  with attempts_handlePayload [of p st w] have "reconnectAttempts st1 = reconnectAttempts st" by simp
  with Some h show ?thesis by (cases r) (simp_all add: on_message_def)
qed

lemma attempts_step: "reconnectAttempts st \<le> reconnectAttempts (fst (step e st w))"
proof (cases e)
  case (Delay_elapsed k c)
  then show ?thesis
    by (cases "snd (pending w ! k)") (simp add: resume_def attempts_connect)
qed (simp_all add: attempts_connect disconnect_def Let_def on_open_def attempts_on_message
      on_error_def on_close_def attempts_handleReconnect)

lemma attempts_run: "reconnectAttempts st \<le> reconnectAttempts (fst (run es st w))"
proof (induction es arbitrary: st w)
  case Nil
  then show ?case by simp
next
  case (Cons e es)
  obtain st1 w1 where s: "step e st w = (st1, w1)" by (cases "step e st w")
  with attempts_step [of st e w] have "reconnectAttempts st \<le> reconnectAttempts st1" by simp
  also have "\<dots> \<le> reconnectAttempts (fst (run es st1 w1))" by (rule Cons.IH)
  finally show ?case using s by simp
qed

text \<open>
  Claim C2, as amended. No invocation of \<^verbatim>\<open>connect\<close> resets \<open>reconnectAttempts\<close>:
  a \<^verbatim>\<open>connect\<close> whose socket is constructed leaves the counter as it is, one whose
  constructor throws hands over to \<^verbatim>\<open>handleReconnect\<close> and so never lowers it, and the
  counter never decreases along any step or any run of the event loop. It does not
  return to 0.
\<close>

theorem connect_never_resets:
  "reconnectAttempts (fst (connect True st w)) = reconnectAttempts st
   \<and> reconnectAttempts st \<le> reconnectAttempts (fst (connect False st w))
   \<and> reconnectAttempts st \<le> reconnectAttempts (fst (step e st w))
   \<and> reconnectAttempts st \<le> reconnectAttempts (fst (run es st w))"
  using attempts_connect [of st False w] attempts_step [of st e w] attempts_run [of st es w]
  by (simp add: connect_def new_WebSocket_def Let_def)

text \<open>
  Claim C2 as stated fails: after one close event the counter is 1, and a fresh call of
  \<^verbatim>\<open>connect\<close> by the owner leaves it at 1.
\<close>

theorem connect_reset_counterexample:
  "reconnectAttempts (fst (run [Call_connect True, Sock_close 0]
      (new_gateway ''t'') (new_world ''linux''))) = 1
   \<and> reconnectAttempts (fst (run [Call_connect True, Sock_close 0, Call_connect True]
      (new_gateway ''t'') (new_world ''linux''))) \<noteq> 0"
  by (simp add: new_gateway_def new_world_def connect_def new_WebSocket_def
      setupWebSocketHandlers_def emits_def on_close_def set_readyState_def console_def
      handleReconnect_def MAX_RECONNECT_ATTEMPTS_def setTimeout_def Let_def)

section \<open>The reconnect policy\<close>

text \<open>
  Claim C3. When \<^verbatim>\<open>handleReconnect\<close> runs with \<open>reconnectAttempts = k < 5\<close>, the
  counter becomes \<open>k + 1\<close> and nothing else of the object changes, the delay awaited is
  \<open>min (1000 * 2 ^ (k + 1)) 30000\<close> milliseconds, no socket and no timer is touched,
  and what resumes when that delay is over is the whole of \<^verbatim>\<open>connect\<close>.
\<close>

theorem handleReconnect_backoff:
  assumes "reconnectAttempts st = k" and "k < 5"
  shows "case handleReconnect st w of (st', w') \<Rightarrow>
           st' = st\<lparr>reconnectAttempts := k + 1\<rparr>
         \<and> pending w' = pending w @ [(min (1000 * 2 ^ (k + 1)) 30000, Resume_connect)]
         \<and> sockets w' = sockets w \<and> timers w' = timers w
         \<and> (\<forall>constructed. resume (length (pending w)) constructed st' w'
                = connect constructed st' (w'\<lparr>pending := pending w\<rparr>))"
  using assms
  by (simp add: handleReconnect_def MAX_RECONNECT_ATTEMPTS_def Let_def setTimeout_def
      console_def resume_def)

theorem handleReconnect_backoff_witness:
  "reconnectAttempts (new_gateway ''t''\<lparr>reconnectAttempts := 2\<rparr>) = 2 \<and> (2::nat) < 5
   \<and> reconnectAttempts (fst (handleReconnect (new_gateway ''t''\<lparr>reconnectAttempts := 2\<rparr>)
        (new_world ''linux''))) = 3
   \<and> pending (snd (handleReconnect (new_gateway ''t''\<lparr>reconnectAttempts := 2\<rparr>)
        (new_world ''linux''))) = [(8000, Resume_connect)]"
  using handleReconnect_backoff
    [of "new_gateway ''t''\<lparr>reconnectAttempts := 2\<rparr>" 2 "new_world ''linux''"]
  by (simp add: new_gateway_def new_world_def split: prod.splits)

text \<open>
  Claim C4. When \<^verbatim>\<open>handleReconnect\<close> runs with \<open>reconnectAttempts \<ge> 5\<close>, it only logs:
  the object is unchanged, so the counter is not reset, and in the environment no delay is
  awaited, no socket is constructed and no timer is set.
\<close>

theorem handleReconnect_exhausted:
  assumes "reconnectAttempts st \<ge> 5"
  shows "handleReconnect st w = (st, w\<lparr>logs := logs w @ [Err_max_reconnect]\<rparr>)"
  using assms
  by (simp add: handleReconnect_def MAX_RECONNECT_ATTEMPTS_def console_def)

theorem handleReconnect_exhausted_witness:
  "reconnectAttempts (new_gateway ''t''\<lparr>reconnectAttempts := 5\<rparr>) \<ge> 5
   \<and> fst (handleReconnect (new_gateway ''t''\<lparr>reconnectAttempts := 5\<rparr>) (new_world ''linux''))
       = new_gateway ''t''\<lparr>reconnectAttempts := 5\<rparr>
   \<and> pending (snd (handleReconnect (new_gateway ''t''\<lparr>reconnectAttempts := 5\<rparr>)
        (new_world ''linux''))) = []
   \<and> sockets (snd (handleReconnect (new_gateway ''t''\<lparr>reconnectAttempts := 5\<rparr>)
        (new_world ''linux''))) = []"
  using handleReconnect_exhausted
    [of "new_gateway ''t''\<lparr>reconnectAttempts := 5\<rparr>" "new_world ''linux''"]
  by (simp add: new_gateway_def new_world_def)

section \<open>HELLO\<close>

lemma handlePayload_hello:
  assumes "\<not> nullish p" and "get_prop p ''op'' = JNum 10"
  shows "handlePayload p st w =
    handleHello (get_prop p ''d'')
      (if get_prop p ''s'' \<noteq> JNull then st\<lparr>sequence := get_prop p ''s''\<rparr> else st) w"
  using assms by (simp add: handlePayload_def Let_def)

lemma handlePayload_invalid_session:
  assumes "\<not> nullish p" and "get_prop p ''op'' = JNum 9"
  shows "handlePayload p st w =
    (case handleInvalidSession
        (if get_prop p ''s'' \<noteq> JNull then st\<lparr>sequence := get_prop p ''s''\<rparr> else st)
        (console Info_session_invalidated w) of (st2, w2) \<Rightarrow> (Fulfilled, st2, w2))"
  using assms by (simp add: handlePayload_def Let_def)

lemma identify_sockets:
  "sockets (identify st w) =
     (case ws st of None \<Rightarrow> sockets w
      | Some i \<Rightarrow> if is_open i w
          then (sockets w)[i := (sockets w ! i)\<lparr>sent := sent (sockets w ! i) @ [identify_payload st w]\<rparr>]
          else sockets w)"
  by (simp add: identify_def ws_send_def is_open_def split: option.splits)

lemma identify_timers: "timers (identify st w) = timers w"
  by (simp add: identify_def split: option.splits)

lemma handleHello_effect:
  assumes "gateway_inv st w" and "\<not> nullish d" and "get_prop d ''heartbeat_interval'' = n"
  shows "case handleHello d st w of (r, st', w') \<Rightarrow>
           r = Fulfilled
         \<and> timers w' = [(timer_count w, n)]
         \<and> heartbeatInterval st' = Some (timer_count w)
         \<and> sockets w' =
             (case ws st of None \<Rightarrow> sockets w
              | Some i \<Rightarrow> if is_open i w
                  then (sockets w)[i := (sockets w ! i)\<lparr>sent := sent (sockets w ! i) @ [identify_payload st w]\<rparr>]
                  else sockets w)"
proof -
  obtain st1 w1 where sh: "startHeartbeat n st w = (st1, w1)"
    by (cases "startHeartbeat n st w")
  from inv_startHeartbeat [OF assms(1) sh]
  have t: "timers w1 = [(timer_count w, n)]" and h: "heartbeatInterval st1 = Some (timer_count w)"
    and s: "sockets w1 = sockets w" and c: "ws st1 = ws st"
    by simp_all
  from sh have tok: "token st1 = token st" and pl: "platform w1 = platform w"
    by (auto simp: startHeartbeat_def setInterval_def Let_def split: option.splits)
  have ip: "identify_payload st1 w1 = identify_payload st w"
    by (simp add: identify_payload_def tok pl)
  have op: "is_open i w1 = is_open i w" for i
    by (simp add: is_open_def s)
  have hh: "handleHello d st w = (Fulfilled, st1, identify st1 w1)"
    using assms(2,3) sh by (simp add: handleHello_def)
  show ?thesis
    unfolding hh by (simp add: identify_timers t h identify_sockets c s ip op split: option.split)
qed

text \<open>
  Claim C5, as amended. In a state of the event loop, handling a HELLO frame whose \<^verbatim>\<open>d\<close>
  carries \<^verbatim>\<open>heartbeat_interval = n\<close> leaves exactly one interval timer set, the new one,
  with period \<open>n\<close>, whether or not a timer was set before. In the same step exactly one
  frame, the IDENTIFY frame, is sent on the object's socket when that socket is open; when
  the object has no socket or its socket is not open, no frame is sent.
\<close>

theorem hello_starts_timer_and_identifies:
  assumes "gateway_inv st w" and "\<not> nullish p" and "get_prop p ''op'' = JNum 10"
    and "\<not> nullish (get_prop p ''d'')"
    and "get_prop (get_prop p ''d'') ''heartbeat_interval'' = n"
  shows "case handlePayload p st w of (r, st', w') \<Rightarrow>
           r = Fulfilled
         \<and> timers w' = [(timer_count w, n)]
         \<and> heartbeatInterval st' = Some (timer_count w)
         \<and> sockets w' =
             (case ws st of None \<Rightarrow> sockets w
              | Some i \<Rightarrow> if is_open i w
                  then (sockets w)[i := (sockets w ! i)\<lparr>sent := sent (sockets w ! i) @ [identify_payload st w]\<rparr>]
                  else sockets w)"
proof -
  define st1 where "st1 = (if get_prop p ''s'' \<noteq> JNull then st\<lparr>sequence := get_prop p ''s''\<rparr> else st)"
  have i1: "gateway_inv st1 w"
    using assms(1) by (simp add: st1_def inv_sequence)
  have e: "ws st1 = ws st" "identify_payload st1 w = identify_payload st w"
    by (simp_all add: st1_def identify_payload_def)
  from handleHello_effect [OF i1 assms(4,5)] show ?thesis
    unfolding handlePayload_hello [OF assms(2,3)] st1_def [symmetric] e .
qed

theorem hello_starts_timer_and_identifies_witness:
  "gateway_inv (fst (run [Call_connect True, Sock_open 0] (new_gateway ''t'') (new_world ''linux'')))
     (snd (run [Call_connect True, Sock_open 0] (new_gateway ''t'') (new_world ''linux'')))
   \<and> \<not> nullish (hello_frame 41250)
   \<and> get_prop (hello_frame 41250) ''op'' = JNum 10
   \<and> \<not> nullish (get_prop (hello_frame 41250) ''d'')
   \<and> get_prop (get_prop (hello_frame 41250) ''d'') ''heartbeat_interval'' = JNum 41250
   \<and> timers (snd (snd (handlePayload (hello_frame 41250)
        (fst (run [Call_connect True, Sock_open 0] (new_gateway ''t'') (new_world ''linux'')))
        (snd (run [Call_connect True, Sock_open 0] (new_gateway ''t'') (new_world ''linux'')))))) = [(0, JNum 41250)]
   \<and> map sent (sockets (snd (snd (handlePayload (hello_frame 41250)
        (fst (run [Call_connect True, Sock_open 0] (new_gateway ''t'') (new_world ''linux'')))
        (snd (run [Call_connect True, Sock_open 0] (new_gateway ''t'') (new_world ''linux''))))))) =
       [[identify_payload (new_gateway ''t'') (new_world ''linux'')]]"
proof -
  have r: "run [Call_connect True, Sock_open 0] (new_gateway ''t'') (new_world ''linux'') =
      (new_gateway ''t''\<lparr>ws := Some 0\<rparr>,
       new_world ''linux''\<lparr>sockets := [\<lparr>readyState = OPEN, listening = True, sent = []\<rparr>],
          logs := [Info_connected]\<rparr>)"
    by (simp add: new_gateway_def new_world_def connect_def new_WebSocket_def
      setupWebSocketHandlers_def emits_def on_open_def set_readyState_def console_def Let_def)
  have i: "gateway_inv (new_gateway ''t''\<lparr>ws := Some 0\<rparr>)
       (new_world ''linux''\<lparr>sockets := [\<lparr>readyState = OPEN, listening = True, sent = []\<rparr>],
          logs := [Info_connected]\<rparr>)"
    by (simp add: gateway_inv_def new_gateway_def new_world_def)
  have h: "\<not> nullish (hello_frame 41250)" "get_prop (hello_frame 41250) ''op'' = JNum 10"
    "\<not> nullish (get_prop (hello_frame 41250) ''d'')"
    "get_prop (get_prop (hello_frame 41250) ''d'') ''heartbeat_interval'' = JNum 41250"
    by (simp_all add: hello_frame_def nullish_def)
  from hello_starts_timer_and_identifies [OF i h] i h show ?thesis
    unfolding r fst_conv snd_conv
    by (simp add: case_prod_beta is_open_def identify_payload_def new_gateway_def new_world_def)
qed

text \<open>
  Claim C5 as stated fails: \<^verbatim>\<open>identify\<close> returns without sending unless the socket is
  open. After \<^verbatim>\<open>disconnect\<close> the socket is closing; a HELLO frame that arrives then arms
  the timer at 41250 ms and no IDENTIFY frame is sent.
\<close>

theorem hello_while_closing_counterexample:
  "timers (snd (run [Call_connect True, Sock_open 0, Call_disconnect,
        Sock_message 0 (Some (hello_frame 41250))] (new_gateway ''t'') (new_world ''linux'')))
     = [(0, JNum 41250)]
   \<and> map sent (sockets (snd (run [Call_connect True, Sock_open 0, Call_disconnect,
        Sock_message 0 (Some (hello_frame 41250))] (new_gateway ''t'') (new_world ''linux''))))
     = [[]]"
  by (simp add: new_gateway_def new_world_def connect_def new_WebSocket_def
      setupWebSocketHandlers_def emits_def on_open_def set_readyState_def console_def Let_def
      disconnect_def ws_close_def on_message_def hello_frame_def handlePayload_def nullish_def
      handleHello_def startHeartbeat_def setInterval_def identify_def is_open_def)

text \<open>
  Claim C10. A frame with \<^verbatim>\<open>op = 10\<close> whose \<^verbatim>\<open>d\<close> is null or missing makes the
  destructuring in \<^verbatim>\<open>handleHello\<close> throw a TypeError, so the promise of
  \<^verbatim>\<open>handlePayload\<close> is rejected. The message handler does not catch it: nothing is
  logged (its \<^verbatim>\<open>catch\<close> would log a parse failure), the rejection is left unhandled, and
  no timer is started and no frame is sent.
\<close>

theorem hello_without_payload_rejects:
  assumes "\<not> nullish p" and "get_prop p ''op'' = JNum 10" and "nullish (get_prop p ''d'')"
  shows "fst (handlePayload p st w) = Rejected TypeError
       \<and> (case on_message (Some p) st w of (st', w') \<Rightarrow>
            unhandled w' = unhandled w @ [TypeError]
          \<and> logs w' = logs w
          \<and> timers w' = timers w
          \<and> sockets w' = sockets w
          \<and> pending w' = pending w
          \<and> heartbeatInterval st' = heartbeatInterval st)"
  using assms
  by (simp add: on_message_def handlePayload_hello handleHello_def)

theorem hello_without_payload_rejects_witness:
  "\<not> nullish (JObj [(''op'', JNum 10), (''d'', JNull)])
   \<and> get_prop (JObj [(''op'', JNum 10), (''d'', JNull)]) ''op'' = JNum 10
   \<and> nullish (get_prop (JObj [(''op'', JNum 10), (''d'', JNull)]) ''d'')
   \<and> \<not> nullish (JObj [(''op'', JNum 10)])
   \<and> get_prop (JObj [(''op'', JNum 10)]) ''op'' = JNum 10
   \<and> nullish (get_prop (JObj [(''op'', JNum 10)]) ''d'')
   \<and> fst (handlePayload (JObj [(''op'', JNum 10), (''d'', JNull)])
        (new_gateway ''t'') (new_world ''linux'')) = Rejected TypeError
   \<and> unhandled (snd (on_message (Some (JObj [(''op'', JNum 10), (''d'', JNull)]))
        (new_gateway ''t'') (new_world ''linux''))) = [TypeError]
   \<and> unhandled (snd (on_message (Some (JObj [(''op'', JNum 10)]))
        (new_gateway ''t'') (new_world ''linux''))) = [TypeError]
   \<and> logs (snd (on_message (Some (JObj [(''op'', JNum 10)]))
        (new_gateway ''t'') (new_world ''linux''))) = []"
proof -
  have h: "\<not> nullish (JObj [(''op'', JNum 10), (''d'', JNull)])"
    "get_prop (JObj [(''op'', JNum 10), (''d'', JNull)]) ''op'' = JNum 10"
    "nullish (get_prop (JObj [(''op'', JNum 10), (''d'', JNull)]) ''d'')"
    by (simp_all add: nullish_def)
  have k: "\<not> nullish (JObj [(''op'', JNum 10)])"
    "get_prop (JObj [(''op'', JNum 10)]) ''op'' = JNum 10"
    "nullish (get_prop (JObj [(''op'', JNum 10)]) ''d'')"
    by (simp_all add: nullish_def)
  have e: "unhandled (new_world ''linux'') = []" "logs (new_world ''linux'') = []"
    by (simp_all add: new_world_def)
  from hello_without_payload_rejects [OF h, of "new_gateway ''t''" "new_world ''linux''"]
    hello_without_payload_rejects [OF k, of "new_gateway ''t''" "new_world ''linux''"] h k
  show ?thesis
    by (simp add: case_prod_beta e)
qed

section \<open>INVALID_SESSION\<close>

text \<open>
  Claim C6. In a state of the event loop, handling a frame with \<^verbatim>\<open>op = 9\<close> leaves no
  interval timer set, awaits a delay of 5000 ms whatever the value of
  \<open>reconnectAttempts\<close>, and does not change that counter or touch a socket. What resumes
  after the delay is \<^verbatim>\<open>connect\<close> itself, not \<^verbatim>\<open>handleReconnect\<close>, and the resumed
  \<^verbatim>\<open>connect\<close> that constructs its socket leaves the counter unchanged as well. (A resumed
  \<^verbatim>\<open>connect\<close> whose constructor throws is a connect failure, see C9.)
\<close>

theorem invalid_session_fixed_delay:
  assumes "gateway_inv st w" and "\<not> nullish p" and "get_prop p ''op'' = JNum 9"
  shows "case handlePayload p st w of (r, st', w') \<Rightarrow>
           r = Fulfilled
         \<and> timers w' = []
         \<and> pending w' = pending w @ [(5000, Resume_connect)]
         \<and> sockets w' = sockets w
         \<and> reconnectAttempts st' = reconnectAttempts st
         \<and> (\<forall>constructed. resume (length (pending w)) constructed st' w'
                = connect constructed st' (w'\<lparr>pending := pending w\<rparr>))
         \<and> reconnectAttempts (fst (resume (length (pending w)) True st' w'))
                = reconnectAttempts st"
proof -
  define st1 where "st1 = (if get_prop p ''s'' \<noteq> JNull then st\<lparr>sequence := get_prop p ''s''\<rparr> else st)"
  have i1: "gateway_inv st1 (console Info_session_invalidated w)"
    using assms(1) by (simp add: st1_def inv_sequence inv_console)
  have a: "reconnectAttempts st1 = reconnectAttempts st"
    by (simp add: st1_def)
  show ?thesis
    unfolding handlePayload_invalid_session [OF assms(2,3)] st1_def [symmetric]
    by (simp add: handleInvalidSession_def cleared_world [OF i1] a resume_def connect_def
        new_WebSocket_def Let_def)
qed

theorem invalid_session_fixed_delay_witness:
  "gateway_inv (new_gateway ''t''\<lparr>heartbeatInterval := Some 0, reconnectAttempts := 5\<rparr>)
     (new_world ''linux''\<lparr>timers := [(0, JNum 41250)], timer_count := 1\<rparr>)
   \<and> \<not> nullish (JObj [(''op'', JNum 9), (''d'', JBool False)])
   \<and> get_prop (JObj [(''op'', JNum 9), (''d'', JBool False)]) ''op'' = JNum 9
   \<and> timers (snd (snd (handlePayload (JObj [(''op'', JNum 9), (''d'', JBool False)])
        (new_gateway ''t''\<lparr>heartbeatInterval := Some 0, reconnectAttempts := 5\<rparr>)
        (new_world ''linux''\<lparr>timers := [(0, JNum 41250)], timer_count := 1\<rparr>)))) = []
   \<and> pending (snd (snd (handlePayload (JObj [(''op'', JNum 9), (''d'', JBool False)])
        (new_gateway ''t''\<lparr>heartbeatInterval := Some 0, reconnectAttempts := 5\<rparr>)
        (new_world ''linux''\<lparr>timers := [(0, JNum 41250)], timer_count := 1\<rparr>))))
       = [(5000, Resume_connect)]
   \<and> reconnectAttempts (fst (snd (handlePayload (JObj [(''op'', JNum 9), (''d'', JBool False)])
        (new_gateway ''t''\<lparr>heartbeatInterval := Some 0, reconnectAttempts := 5\<rparr>)
        (new_world ''linux''\<lparr>timers := [(0, JNum 41250)], timer_count := 1\<rparr>)))) = 5"
proof -
  have i: "gateway_inv (new_gateway ''t''\<lparr>heartbeatInterval := Some 0, reconnectAttempts := 5\<rparr>)
     (new_world ''linux''\<lparr>timers := [(0, JNum 41250)], timer_count := 1\<rparr>)"
    by (simp add: gateway_inv_def new_gateway_def new_world_def)
  have h: "\<not> nullish (JObj [(''op'', JNum 9), (''d'', JBool False)])"
    "get_prop (JObj [(''op'', JNum 9), (''d'', JBool False)]) ''op'' = JNum 9"
    by (simp_all add: nullish_def)
  from invalid_session_fixed_delay [OF i h] i h show ?thesis
    by (simp add: case_prod_beta new_gateway_def new_world_def)
qed

section \<open>disconnect\<close>

text \<open>
  Claim C7. In a state of the event loop, \<^verbatim>\<open>disconnect\<close> leaves no interval timer set,
  the object's socket, when it has one, is closing or closed afterwards, and the object
  itself is unchanged: in particular \<open>reconnectAttempts\<close> and \<open>sequence\<close> are. A delay
  that is being awaited stays pending.
\<close>

theorem disconnect_stops_timer_and_closes:
  assumes "gateway_inv st w"
  shows "case disconnect st w of (st', w') \<Rightarrow>
           st' = st
         \<and> reconnectAttempts st' = reconnectAttempts st
         \<and> sequence st' = sequence st
         \<and> timers w' = []
         \<and> pending w' = pending w
         \<and> length (sockets w') = length (sockets w)
         \<and> (\<forall>i \<in> set_option (ws st). readyState (sockets w' ! i) \<in> {CLOSING, CLOSED})"
proof (cases "ws st")
  case None
  then show ?thesis
    by (simp add: disconnect_def Let_def cleared_world [OF assms])
next
  case (Some i)
  with assms have "i < length (sockets w)" by (simp add: gateway_inv_def)
  with Some show ?thesis
    by (cases "readyState (sockets w ! i)")
       (simp_all add: disconnect_def Let_def cleared_world [OF assms] ws_close_def)
qed

theorem disconnect_stops_timer_and_closes_witness:
  "gateway_inv (fst (run [Call_connect True, Sock_open 0, Sock_message 0 (Some (hello_frame 41250))]
       (new_gateway ''t'') (new_world ''linux'')))
     (snd (run [Call_connect True, Sock_open 0, Sock_message 0 (Some (hello_frame 41250))]
       (new_gateway ''t'') (new_world ''linux'')))
   \<and> timers (snd (run [Call_connect True, Sock_open 0, Sock_message 0 (Some (hello_frame 41250))]
       (new_gateway ''t'') (new_world ''linux''))) = [(0, JNum 41250)]
   \<and> timers (snd (run [Call_connect True, Sock_open 0, Sock_message 0 (Some (hello_frame 41250)),
       Call_disconnect] (new_gateway ''t'') (new_world ''linux''))) = []
   \<and> map readyState (sockets (snd (run [Call_connect True, Sock_open 0,
       Sock_message 0 (Some (hello_frame 41250)), Call_disconnect]
       (new_gateway ''t'') (new_world ''linux'')))) = [CLOSING]"
proof -
  define g where "g = new_gateway ''t''\<lparr>ws := Some 0, heartbeatInterval := Some 0\<rparr>"
  define v where "v = new_world ''linux''\<lparr>
      sockets := [\<lparr>readyState = OPEN, listening = True,
                   sent = [identify_payload (new_gateway ''t'') (new_world ''linux'')]\<rparr>],
      timers := [(0, JNum 41250)], timer_count := 1, logs := [Info_connected]\<rparr>"
  have r: "run [Call_connect True, Sock_open 0, Sock_message 0 (Some (hello_frame 41250))]
       (new_gateway ''t'') (new_world ''linux'') = (g, v)"
    by (simp add: g_def v_def new_gateway_def new_world_def connect_def new_WebSocket_def
      setupWebSocketHandlers_def emits_def on_open_def set_readyState_def console_def Let_def
      on_message_def hello_frame_def handlePayload_def nullish_def handleHello_def
      startHeartbeat_def setInterval_def identify_def is_open_def ws_send_def
      identify_payload_def)
  have r': "run [Call_connect True, Sock_open 0, Sock_message 0 (Some (hello_frame 41250)),
       Call_disconnect] (new_gateway ''t'') (new_world ''linux'') = disconnect g v"
    using r by (simp add: case_prod_beta)
  have i: "gateway_inv g v"
    by (simp add: gateway_inv_def g_def v_def new_gateway_def new_world_def)
  have w0: "ws g = Some 0" "timers v = [(0, JNum 41250)]" "length (sockets v) = 1"
    by (simp_all add: g_def v_def new_gateway_def new_world_def)
  from disconnect_stops_timer_and_closes [OF i] i w0 show ?thesis
    unfolding r r' fst_conv snd_conv
    by (simp add: case_prod_beta disconnect_def Let_def clearInterval_def ws_close_def
        g_def v_def new_gateway_def new_world_def)
qed

section \<open>The heartbeat tick\<close>

text \<open>
  Claim C8. A tick of the interval timer runs \<^verbatim>\<open>sendHeartbeat\<close>. When the object's
  socket is open, exactly one frame is appended to what that socket has sent, the frame
  \<^verbatim>\<open>{op: 1, d: sequence}\<close> with the stored sequence number as it is (null included), and
  the send is logged. When the object has no socket or the socket is not open, the
  environment is unchanged. In both cases the timers that are set stay set.
\<close>

theorem heartbeat_tick:
  "(case ws st of
      None \<Rightarrow> sendHeartbeat st w = w
    | Some i \<Rightarrow>
        if is_open i w
        then sendHeartbeat st w =
               w\<lparr>sockets := (sockets w)[i := (sockets w ! i)
                     \<lparr>sent := sent (sockets w ! i) @ [JObj [(''op'', JNum 1), (''d'', sequence st)]]\<rparr>],
                  logs := logs w @ [Info_heartbeat_sent]\<rparr>
             \<and> length (sent (sockets (sendHeartbeat st w) ! i)) = Suc (length (sent (sockets w ! i)))
        else sendHeartbeat st w = w)
   \<and> timers (sendHeartbeat st w) = timers w
   \<and> step (Interval_tick h) st w =
       (st, if h \<in> fst ` set (timers w) then sendHeartbeat st w else w)"
  by (cases "ws st")
     (simp_all add: sendHeartbeat_def heartbeat_payload_def ws_send_def is_open_def console_def)

theorem heartbeat_tick_witness:
  "sent (sockets (sendHeartbeat (new_gateway ''t''\<lparr>ws := Some 0\<rparr>)
       (new_world ''linux''\<lparr>sockets := [\<lparr>readyState = OPEN, listening = True, sent = []\<rparr>],
          timers := [(0, JNum 41250)]\<rparr>)) ! 0) = [JObj [(''op'', JNum 1), (''d'', JNull)]]
   \<and> timers (sendHeartbeat (new_gateway ''t''\<lparr>ws := Some 0\<rparr>)
       (new_world ''linux''\<lparr>sockets := [\<lparr>readyState = OPEN, listening = True, sent = []\<rparr>],
          timers := [(0, JNum 41250)]\<rparr>)) = [(0, JNum 41250)]
   \<and> sendHeartbeat (new_gateway ''t''\<lparr>ws := Some 0\<rparr>)
       (new_world ''linux''\<lparr>sockets := [\<lparr>readyState = CLOSING, listening = True, sent = []\<rparr>],
          timers := [(0, JNum 41250)]\<rparr>)
     = new_world ''linux''\<lparr>sockets := [\<lparr>readyState = CLOSING, listening = True, sent = []\<rparr>],
          timers := [(0, JNum 41250)]\<rparr>"
  using heartbeat_tick [of "new_gateway ''t''\<lparr>ws := Some 0\<rparr>"
      "new_world ''linux''\<lparr>sockets := [\<lparr>readyState = OPEN, listening = True, sent = []\<rparr>],
          timers := [(0, JNum 41250)]\<rparr>"]
    heartbeat_tick [of "new_gateway ''t''\<lparr>ws := Some 0\<rparr>"
      "new_world ''linux''\<lparr>sockets := [\<lparr>readyState = CLOSING, listening = True, sent = []\<rparr>],
          timers := [(0, JNum 41250)]\<rparr>"]
  by (simp add: is_open_def new_gateway_def new_world_def)

section \<open>Transport errors\<close>

lemma alive_unchanged:
  "alive i (console l w) = alive i w"
  "alive i (setTimeout ms k w) = alive i w"
  "alive i (clearInterval h w) = alive i w"
  "alive i (snd (setInterval n w)) = alive i w"
  "alive i (w\<lparr>pending := p\<rparr>) = alive i w"
  "alive i (w\<lparr>unhandled := u\<rparr>) = alive i w"
  "alive i (w\<lparr>timers := ts\<rparr>) = alive i w"
  "alive i (w\<lparr>timer_count := c\<rparr>) = alive i w"
  "alive i (w\<lparr>logs := ls\<rparr>) = alive i w"
  by (simp_all add: alive_def emits_def setInterval_def)









lemma alive_handleInvalidSession: "alive i (snd (handleInvalidSession st w)) = alive i w"
  by (simp add: handleInvalidSession_def Let_def alive_unchanged split: option.splits)














end
